theory Spec2Isabelle
  imports Complex_Main "HOL-Library.Char_ord" "HOL-Library.List_Lexorder" "HOL-Library.Multiset"
begin

text \<open>
  The metrics of the pension fund dashboard (\<open>js/main.js\<close>): the time range of a
  period, cumulative growth and annualised return of a series of quarterly changes, the
  printing of signed percentages, and \<open>renderTables\<close>, which decides for every manager
  of a fund type whether it has figures for the period and fills the five tables. The
  functions are translated from the JavaScript; what is printed into the page is the
  value returned here.
\<close>

section \<open>JavaScript numbers\<close>

text \<open>
  A JavaScript number is a finite value, one of the two infinities, or NaN. Finite
  values are real numbers here: the rounding of binary64 arithmetic, its overflow to
  an infinity and the sign of zero are not modelled (the program never divides by a
  zero and prints both zeros alike). \<open>null\<close> is \<open>None\<close> of \<open>jsnum option\<close>.
\<close>

datatype jsnum = Fin real | PInf | NInf | NaN

text \<open>ToNumber: \<open>null\<close> becomes 0.\<close>

fun toNumber :: "jsnum option \<Rightarrow> jsnum" where
  "toNumber None = Fin 0"
| "toNumber (Some n) = n"

fun jadd :: "jsnum \<Rightarrow> jsnum \<Rightarrow> jsnum" where
  "jadd NaN _ = NaN"
| "jadd _ NaN = NaN"
| "jadd PInf NInf = NaN"
| "jadd NInf PInf = NaN"
| "jadd PInf _ = PInf"
| "jadd _ PInf = PInf"
| "jadd NInf _ = NInf"
| "jadd _ NInf = NInf"
| "jadd (Fin a) (Fin b) = Fin (a + b)"

fun jneg :: "jsnum \<Rightarrow> jsnum" where
  "jneg NaN = NaN"
| "jneg PInf = NInf"
| "jneg NInf = PInf"
| "jneg (Fin a) = Fin (- a)"

definition jsub :: "jsnum \<Rightarrow> jsnum \<Rightarrow> jsnum" where
  "jsub x y = jadd x (jneg y)"

text \<open>An infinity times a finite value: its sign decides, and \<open>Infinity * 0\<close> is NaN.\<close>

definition inf_times :: "real \<Rightarrow> jsnum" where
  "inf_times a = (if 0 < a then PInf else if a < 0 then NInf else NaN)"

fun jmul :: "jsnum \<Rightarrow> jsnum \<Rightarrow> jsnum" where
  "jmul NaN _ = NaN"
| "jmul _ NaN = NaN"
| "jmul (Fin a) (Fin b) = Fin (a * b)"
| "jmul (Fin a) PInf = inf_times a"
| "jmul (Fin a) NInf = inf_times (- a)"
| "jmul PInf (Fin b) = inf_times b"
| "jmul NInf (Fin b) = inf_times (- b)"
| "jmul PInf PInf = PInf"
| "jmul PInf NInf = NInf"
| "jmul NInf PInf = NInf"
| "jmul NInf NInf = PInf"

text \<open>Division; a zero divisor is read as \<open>+0\<close>.\<close>

fun jdiv :: "jsnum \<Rightarrow> jsnum \<Rightarrow> jsnum" where
  "jdiv NaN _ = NaN"
| "jdiv _ NaN = NaN"
| "jdiv (Fin a) (Fin b) = (if b = 0 then inf_times a else Fin (a / b))"
| "jdiv (Fin a) PInf = Fin 0"
| "jdiv (Fin a) NInf = Fin 0"
| "jdiv PInf (Fin b) = (if b < 0 then NInf else PInf)"
| "jdiv NInf (Fin b) = (if b < 0 then PInf else NInf)"
| "jdiv PInf _ = NaN"
| "jdiv NInf _ = NaN"

text \<open>The comparisons \<open><\<close> and \<open><=\<close>: false whenever an operand is NaN.\<close>

fun jlt :: "jsnum \<Rightarrow> jsnum \<Rightarrow> bool" where
  "jlt NaN _ = False"
| "jlt _ NaN = False"
| "jlt _ NInf = False"
| "jlt NInf _ = True"
| "jlt PInf _ = False"
| "jlt _ PInf = True"
| "jlt (Fin a) (Fin b) = (a < b)"

fun jle :: "jsnum \<Rightarrow> jsnum \<Rightarrow> bool" where
  "jle NaN _ = False"
| "jle _ NaN = False"
| "jle NInf _ = True"
| "jle _ PInf = True"
| "jle PInf _ = False"
| "jle _ NInf = False"
| "jle (Fin a) (Fin b) = (a \<le> b)"

text \<open>\<open>Math.round\<close>: the nearest integer, a tie going up.\<close>

fun Math_round :: "jsnum \<Rightarrow> jsnum" where
  "Math_round (Fin a) = Fin (of_int \<lfloor>a + 1 / 2\<rfloor>)"
| "Math_round x = x"

text \<open>
  \<open>Math.min.apply(null, xs)\<close> and \<open>Math.max.apply(null, xs)\<close>: every argument goes
  through ToNumber, a NaN argument makes the result NaN, and no argument at all gives
  \<open>Infinity\<close> and \<open>-Infinity\<close>.
\<close>

definition min2 :: "jsnum \<Rightarrow> jsnum \<Rightarrow> jsnum" where
  "min2 a b = (if a = NaN \<or> b = NaN then NaN else if jlt b a then b else a)"

definition max2 :: "jsnum \<Rightarrow> jsnum \<Rightarrow> jsnum" where
  "max2 a b = (if a = NaN \<or> b = NaN then NaN else if jlt a b then b else a)"

definition Math_min :: "jsnum option list \<Rightarrow> jsnum" where
  "Math_min xs = foldl min2 PInf (map toNumber xs)"

definition Math_max :: "jsnum option list \<Rightarrow> jsnum" where
  "Math_max xs = foldl max2 NInf (map toNumber xs)"

text \<open>
  \<open>Math.pow(x, y)\<close> for a finite exponent \<open>y\<close>. A negative base has a power only for
  an integer exponent; \<open>powr\<close> is the real power of a positive base.
\<close>

definition Math_pow :: "jsnum \<Rightarrow> real \<Rightarrow> jsnum" where
  "Math_pow x y =
     (if y = 0 then Fin 1
      else case x of
        NaN \<Rightarrow> NaN
      | PInf \<Rightarrow> (if 0 < y then PInf else Fin 0)
      | NInf \<Rightarrow> (if y < 0 then Fin 0
                 else if y \<in> \<int> \<and> odd \<lfloor>y\<rfloor> then NInf else PInf)
      | Fin b \<Rightarrow>
          (if 0 < b then Fin (b powr y)
           else if b = 0 then (if 0 < y then Fin 0 else PInf)
           else if y \<in> \<int> then Fin (b powi \<lfloor>y\<rfloor>)
           else NaN))"

section \<open>Printing numbers\<close>

definition digit_char :: "nat \<Rightarrow> char" where
  "digit_char n = ''0123456789'' ! n"

fun digits :: "nat \<Rightarrow> string" where
  "digits n = (if n < 10 then [digit_char n] else digits (n div 10) @ [digit_char (n mod 10)])"

declare digits.simps [simp del]

text \<open>
  \<open>Number.prototype.toFixed(f)\<close>, for \<open>0 \<le> f \<le> 100\<close> (the program passes 2 and 3).
  A magnitude of \<open>10^21\<close> or more is printed by Number::toString in exponent notation,
  whose digits depend on the binary64 value: that printer is the parameter \<open>big\<close>.
\<close>

definition toFixed :: "(real \<Rightarrow> string) \<Rightarrow> jsnum \<Rightarrow> nat \<Rightarrow> string" where
  "toFixed big x f =
     (case x of
        NaN \<Rightarrow> ''NaN''
      | PInf \<Rightarrow> ''Infinity''
      | NInf \<Rightarrow> ''-Infinity''
      | Fin r \<Rightarrow>
          (let s = (if r < 0 then ''-'' else '''');
               a = \<bar>r\<bar>
           in if 10 ^ 21 \<le> a then s @ big a
              else
                let n = nat \<lfloor>a * 10 ^ f + 1 / 2\<rfloor>;
                    m = digits n;
                    m' = (if length m \<le> f then replicate (f + 1 - length m) CHR ''0'' @ m else m);
                    k = length m'
                in if f = 0 then s @ m
                   else s @ take (k - f) m' @ ''.'' @ drop (k - f) m'))"

text \<open>\<open>String(n)\<close> for \<open>n\<close> a result of \<open>Math.round\<close> (an integer, an infinity or NaN).\<close>

definition String_of :: "(real \<Rightarrow> string) \<Rightarrow> jsnum \<Rightarrow> string" where
  "String_of big x =
     (case x of
        NaN \<Rightarrow> ''NaN''
      | PInf \<Rightarrow> ''Infinity''
      | NInf \<Rightarrow> ''-Infinity''
      | Fin r \<Rightarrow>
          (let s = (if r < 0 then ''-'' else '''');
               a = \<bar>r\<bar>
           in if 10 ^ 21 \<le> a then s @ big a else s @ digits (nat \<lfloor>a\<rfloor>)))"

section \<open>Dates\<close>

text \<open>
  A \<open>Date\<close> holds a time value, milliseconds since the epoch, or is invalid (time value
  NaN). The local time zone is UTC, and time values are unbounded integers: the limit
  of 8.64e15 milliseconds either side of the epoch is not modelled. The report dates
  of the dataset are valid dates.
\<close>

datatype jsdate = Date int | InvalidDate

definition msPerDay :: int where
  "msPerDay = 86400000"

text \<open>The proleptic Gregorian calendar: day number from year, month (1..12) and day.\<close>

definition days_from_civil :: "int \<Rightarrow> int \<Rightarrow> int \<Rightarrow> int" where
  "days_from_civil y m d =
     (let y' = (if m \<le> 2 then y - 1 else y);
          era = y' div 400;
          yoe = y' - era * 400;
          mp = (if 2 < m then m - 3 else m + 9);
          doy = (153 * mp + 2) div 5 + d - 1;
          doe = yoe * 365 + yoe div 4 - yoe div 100 + doy
      in era * 146097 + doe - 719468)"

definition civil_from_days :: "int \<Rightarrow> int \<times> int \<times> int" where
  "civil_from_days z0 =
     (let z = z0 + 719468;
          era = z div 146097;
          doe = z - era * 146097;
          yoe = (doe - doe div 1460 + doe div 36524 - doe div 146096) div 365;
          y = yoe + era * 400;
          doy = doe - (365 * yoe + yoe div 4 - yoe div 100);
          mp = (5 * doy + 2) div 153;
          d = doy - (153 * mp + 2) div 5 + 1;
          m = (if mp < 10 then mp + 3 else mp - 9)
      in (if m \<le> 2 then y + 1 else y, m, d))"

definition YearFromTime :: "int \<Rightarrow> int" where
  "YearFromTime t = fst (civil_from_days (t div msPerDay))"

text \<open>Months count from 0, as \<open>getMonth\<close> returns them.\<close>

definition MonthFromTime :: "int \<Rightarrow> int" where
  "MonthFromTime t = fst (snd (civil_from_days (t div msPerDay))) - 1"

definition DateFromTime :: "int \<Rightarrow> int" where
  "DateFromTime t = snd (snd (civil_from_days (t div msPerDay)))"

definition MakeDay :: "int \<Rightarrow> int \<Rightarrow> int \<Rightarrow> int" where
  "MakeDay year month date =
     days_from_civil (year + month div 12) (month mod 12 + 1) 1 + date - 1"

definition MakeDate :: "int \<Rightarrow> int \<Rightarrow> int" where
  "MakeDate day time = day * msPerDay + time"

text \<open>\<open>d.setMonth(m)\<close>: the month may lie outside 0..11, and a day past the month's end
  runs into the next month.\<close>

definition setMonth :: "int \<Rightarrow> int \<Rightarrow> int" where
  "setMonth t m = MakeDate (MakeDay (YearFromTime t) m (DateFromTime t)) (t mod msPerDay)"

text \<open>\<open>new Date(y, 0, 1)\<close>: a year from 0 to 99 means 1900 + y.\<close>

definition newDateYear :: "int \<Rightarrow> int" where
  "newDateYear y =
     MakeDate (MakeDay (if 0 \<le> y \<and> y \<le> 99 then 1900 + y else y) 0 1) 0"

text \<open>
  \<open>new Date(Math.max.apply(null, dates))\<close> and its \<open>Math.min\<close> twin, over the time
  values of valid dates: no date at all gives an infinity, hence an invalid date.
\<close>

definition newDateMax :: "int list \<Rightarrow> jsdate" where
  "newDateMax dates = (case dates of [] \<Rightarrow> InvalidDate | d # ds \<Rightarrow> Date (foldl max d ds))"

definition newDateMin :: "int list \<Rightarrow> jsdate" where
  "newDateMin dates = (case dates of [] \<Rightarrow> InvalidDate | d # ds \<Rightarrow> Date (foldl min d ds))"

text \<open>The number a date or \<open>null\<close> is compared and subtracted as.\<close>

fun timeValue :: "jsdate option \<Rightarrow> jsnum" where
  "timeValue None = Fin 0"
| "timeValue (Some InvalidDate) = NaN"
| "timeValue (Some (Date t)) = Fin (of_int t)"

section \<open>The dataset\<close>

record observation =
  report_date :: int
  fund_type :: string
  company_short :: string
  relative_change :: "jsnum option"
  number_of_participants :: "jsnum option"
  bik_pct :: "jsnum option"

type_synonym range = "jsdate option \<times> jsdate option"

section \<open>Time ranges\<close>

definition getYtdRange :: "observation list \<Rightarrow> range" where
  "getYtdRange data =
     (let dates = map report_date data;
          end = newDateMax dates;
          start = (case end of InvalidDate \<Rightarrow> InvalidDate
                   | Date t \<Rightarrow> Date (newDateYear (YearFromTime t)))
      in (Some start, Some end))"

definition getPreviousYearRange :: "observation list \<Rightarrow> int \<Rightarrow> range" where
  "getPreviousYearRange data months =
     (let dates = map report_date data;
          end = newDateMax dates;
          base = (case end of InvalidDate \<Rightarrow> InvalidDate
                  | Date t \<Rightarrow> Date (setMonth t (MonthFromTime t - (months - 1))));
          candidates = map report_date
            (filter (\<lambda>r. jlt (timeValue (Some base)) (Fin (of_int (report_date r)))) data)
      in if candidates = [] then (None, None)
         else (Some (newDateMin candidates), Some end))"

text \<open>The test \<open>/^\d+$/\<close> and \<open>parseInt(period, 10)\<close> on a string that passes it.\<close>

definition isDigit :: "char \<Rightarrow> bool" where
  "isDigit c = (CHR ''0'' \<le> c \<and> c \<le> CHR ''9'')"

definition allDigits :: "string \<Rightarrow> bool" where
  "allDigits s = (s \<noteq> [] \<and> list_all isDigit s)"

definition parseInt :: "string \<Rightarrow> int" where
  "parseInt s = foldl (\<lambda>acc c. acc * 10 + (int (of_char c) - 48)) 0 s"

text \<open>\<open>getRange\<close> reads the global \<open>rawData\<close>; it is the first argument here.\<close>

definition getRange :: "observation list \<Rightarrow> observation list \<Rightarrow> string \<Rightarrow> range" where
  "getRange rawData data period =
     (if data = [] then (None, None)
      else if period = ''YTD'' then getYtdRange data
      else if period = ''ALL'' then
        (let allDates = map report_date rawData
         in (Some (newDateMin allDates), Some (newDateMax allDates)))
      else if allDigits period then getPreviousYearRange data (parseInt period * 12)
      else (None, None))"

section \<open>Metrics\<close>

definition isClean :: "jsnum option \<Rightarrow> bool" where
  "isClean v = (v \<noteq> None \<and> v \<noteq> Some NaN)"

definition geometricCumulativeGrowth :: "jsnum option list \<Rightarrow> jsnum" where
  "geometricCumulativeGrowth series =
     (let clean = filter isClean series
      in if clean = [] then NaN
         else
           let results = map (\<lambda>v. jdiv (toNumber v) (Fin 100)) clean;
               prod = foldl (\<lambda>acc x. jmul acc (jadd (Fin 1) x)) (Fin 1) results
           in jmul (jsub prod (Fin 1)) (Fin 100))"

definition annualisedYearlyReturn :: "jsnum option list \<Rightarrow> jsnum" where
  "annualisedYearlyReturn series =
     (let clean = filter isClean series;
          quarters = length clean
      in if quarters = 0 then NaN
         else
           let years = real quarters / 4
           in if years \<le> 0 then NaN
              else
                let totalGrowthPct = geometricCumulativeGrowth clean;
                    totalGrowth = jdiv totalGrowthPct (Fin 100);
                    annualised = jsub (Math_pow (jadd (Fin 1) totalGrowth) (1 / years)) (Fin 1)
                in jmul annualised (Fin 100))"

definition fmtSigned :: "(real \<Rightarrow> string) \<Rightarrow> jsnum option \<Rightarrow> nat \<Rightarrow> string \<Rightarrow> string" where
  "fmtSigned big val decimals msgIfNaN =
     (if val = None \<or> val = Some NaN then msgIfNaN
      else
        let factor = Fin (10 ^ decimals);
            rounded = jdiv (Math_round (jmul (toNumber val) factor)) factor;
            sign = (if jlt (Fin 0) rounded then ''+'' else '''')
        in sign @ toFixed big rounded decimals)"

section \<open>Sorting\<close>

text \<open>
  \<open>Array.prototype.sort(cmp)\<close> is stable, and a NaN from the comparator counts as 0.
  The model is the stable insertion sort: each element goes before the first element
  that the comparator puts after it. Where the comparator is a consistent comparison
  every stable sort returns this list.
\<close>

fun insert_sorted :: "('a \<Rightarrow> 'a \<Rightarrow> jsnum) \<Rightarrow> 'a \<Rightarrow> 'a list \<Rightarrow> 'a list" where
  "insert_sorted cmp x [] = [x]"
| "insert_sorted cmp x (y # ys) =
     (if jlt (Fin 0) (cmp y x) then x # y # ys else y # insert_sorted cmp x ys)"

definition array_sort :: "('a \<Rightarrow> 'a \<Rightarrow> jsnum) \<Rightarrow> 'a list \<Rightarrow> 'a list" where
  "array_sort cmp xs = foldl (\<lambda>acc x. insert_sorted cmp x acc) [] xs"

section \<open>The tables\<close>

text \<open>
  A row of a table: the manager and the texts of the row's other columns, in the order
  \<open>renderTable\<close> shows them. A numeric row carries its \<open>_sort\<close> key until the sort.
\<close>

record row =
  manager :: string
  columns :: "string list"

type_synonym keyed = "row \<times> jsnum"

record tables =
  growthNumeric :: "keyed list"
  growthNoData :: "row list"
  avgNumeric :: "keyed list"
  avgNoData :: "row list"
  extremesNumeric :: "keyed list"
  extremesNoData :: "row list"
  participantsNumeric :: "keyed list"
  participantsNoData :: "row list"
  bikNumeric :: "keyed list"
  bikNoData :: "row list"

definition noTables :: tables where
  "noTables = \<lparr>growthNumeric = [], growthNoData = [], avgNumeric = [], avgNoData = [],
     extremesNumeric = [], extremesNoData = [], participantsNumeric = [],
     participantsNoData = [], bikNumeric = [], bikNoData = []\<rparr>"

text \<open>\<open>renderTables\<close>, lines 329 to 343: the fund type's rows, its managers in
  sorted order, and each manager's coverage in years over its whole history.\<close>

definition fundDataOf :: "observation list \<Rightarrow> string \<Rightarrow> observation list" where
  "fundDataOf rawData ft = filter (\<lambda>r. fund_type r = ft) rawData"

definition companiesOf :: "observation list \<Rightarrow> string list" where
  "companiesOf fundData = sort (remdups (map company_short fundData))"

definition dateDiff :: "jsdate \<Rightarrow> jsdate \<Rightarrow> jsnum" where
  "dateDiff a b = jsub (timeValue (Some a)) (timeValue (Some b))"

definition coverageOf :: "observation list \<Rightarrow> string \<Rightarrow> jsnum" where
  "coverageOf fundData c =
     (let rows = filter (\<lambda>r. company_short r = c) fundData;
          dates = map report_date rows;
          min = newDateMin dates;
          max = newDateMax dates;
          days = jdiv (dateDiff max min) (Fin (1000 * 60 * 60 * 24))
      in jdiv days (Fin 365.25))"

definition coverageYears :: "observation list \<Rightarrow> string list \<Rightarrow> (string \<rightharpoonup> jsnum)" where
  "coverageYears fundData companies =
     foldl (\<lambda>m c. m(c \<mapsto> coverageOf fundData c)) Map.empty companies"

text \<open>\<open>coverageYears[c] || 0.0\<close>: a missing entry, 0 and NaN give 0.\<close>

definition orZero :: "jsnum option \<Rightarrow> jsnum" where
  "orZero v = (case v of None \<Rightarrow> Fin 0 | Some n \<Rightarrow> (if n = NaN \<or> n = Fin 0 then Fin 0 else n))"

text \<open>Lines 345 to 368: the years a manager must cover, \<open>null\<close> when none are asked.\<close>

definition requestedYearsOf :: "string \<Rightarrow> range \<Rightarrow> jsnum option" where
  "requestedYearsOf period rng =
     (let requestedYears = (if allDigits period then Some (Fin (of_int (parseInt period))) else None)
      in case rng of
           (Some start, Some end) \<Rightarrow>
             (if period = ''ALL'' then
                (let fullDays = jdiv (dateDiff end start) (Fin (1000 * 60 * 60 * 24));
                     fullYears = jdiv fullDays (Fin 365.25)
                 in Some fullYears)
              else requestedYears)
         | _ \<Rightarrow> requestedYears)"

definition rangeDataOf :: "observation list \<Rightarrow> range \<Rightarrow> observation list" where
  "rangeDataOf fundData rng =
     filter (\<lambda>r. jle (timeValue (fst rng)) (Fin (of_int (report_date r)))
               \<and> jle (Fin (of_int (report_date r))) (timeValue (snd rng))) fundData"

text \<open>Lines 382 to 390: the test that sends a manager to the numeric lists.\<close>

definition hasEnoughHistory :: "(string \<rightharpoonup> jsnum) \<Rightarrow> jsnum option \<Rightarrow> string \<Rightarrow> bool" where
  "hasEnoughHistory cov requestedYears c =
     (let covYears = orZero (cov c)
      in case requestedYears of None \<Rightarrow> True
         | Some y \<Rightarrow> jle y (jadd covYears (Fin (1 / 10 ^ 6))))"

definition eligible ::
  "observation list \<Rightarrow> (string \<rightharpoonup> jsnum) \<Rightarrow> jsnum option \<Rightarrow> string \<Rightarrow> bool" where
  "eligible rangeData cov requestedYears c =
     (filter (\<lambda>r. company_short r = c) rangeData \<noteq> [] \<and> hasEnoughHistory cov requestedYears c)"

text \<open>Lines 408 to 444: the values of an eligible manager, from its rows in the range.\<close>

record metrics =
  growthVal :: jsnum
  avgVal :: jsnum
  worstVal :: jsnum
  bestVal :: jsnum
  partLatestStr :: string
  partChangeStr :: string
  sortPart :: jsnum
  bikStr :: string
  sortBik :: jsnum

definition byDate :: "observation \<Rightarrow> observation \<Rightarrow> jsnum" where
  "byDate a b = Fin (of_int (report_date a - report_date b))"

definition metricsOf ::
  "(real \<Rightarrow> string) \<Rightarrow> string \<Rightarrow> string \<Rightarrow> observation list \<Rightarrow> metrics" where
  "metricsOf big msgFundNotExist msgNoData grpRange =
     (let sorted = array_sort byDate grpRange;
          relChanges = map relative_change sorted;
          firstPart = number_of_participants (hd sorted);
          lastPart = number_of_participants (last sorted);
          noPart = (firstPart = None \<or> lastPart = None
                    \<or> firstPart = Some NaN \<or> lastPart = Some NaN);
          latest = Math_round (toNumber lastPart);
          diff = Math_round (jsub (toNumber lastPart) (toNumber firstPart));
          lastBik = bik_pct (last sorted);
          noBik = (lastBik = None \<or> lastBik = Some NaN)
      in \<lparr>growthVal = geometricCumulativeGrowth relChanges,
          avgVal = annualisedYearlyReturn relChanges,
          worstVal = Math_min relChanges,
          bestVal = Math_max relChanges,
          partLatestStr = (if noPart then msgFundNotExist else String_of big latest),
          partChangeStr = (if noPart then msgFundNotExist
                           else if jle (Fin 0) diff then ''+'' @ String_of big diff
                           else String_of big diff),
          sortPart = (if noPart then NInf else latest),
          bikStr = (if noBik then msgNoData else toFixed big (toNumber lastBik) 3),
          sortBik = (if noBik then PInf else toNumber lastBik)\<rparr>)"

text \<open>The rows pushed for an eligible manager, lines 446 to 472, each with its key.\<close>

definition growthEntry :: "(real \<Rightarrow> string) \<Rightarrow> string \<Rightarrow> string \<Rightarrow> metrics \<Rightarrow> keyed" where
  "growthEntry big msgFundNotExist c m =
     (\<lparr>manager = c, columns = [fmtSigned big (Some (growthVal m)) 2 msgFundNotExist]\<rparr>,
      growthVal m)"

definition avgEntry :: "(real \<Rightarrow> string) \<Rightarrow> string \<Rightarrow> string \<Rightarrow> metrics \<Rightarrow> keyed" where
  "avgEntry big msgFundNotExist c m =
     (\<lparr>manager = c, columns = [fmtSigned big (Some (avgVal m)) 2 msgFundNotExist]\<rparr>,
      avgVal m)"

definition extremesEntry :: "(real \<Rightarrow> string) \<Rightarrow> string \<Rightarrow> string \<Rightarrow> metrics \<Rightarrow> keyed" where
  "extremesEntry big msgFundNotExist c m =
     (\<lparr>manager = c,
       columns = [fmtSigned big (Some (worstVal m)) 2 msgFundNotExist,
                  fmtSigned big (Some (bestVal m)) 2 msgFundNotExist]\<rparr>,
      worstVal m)"

definition participantsEntry :: "string \<Rightarrow> metrics \<Rightarrow> keyed" where
  "participantsEntry c m =
     (\<lparr>manager = c, columns = [partLatestStr m, partChangeStr m]\<rparr>, sortPart m)"

definition bikEntry :: "string \<Rightarrow> metrics \<Rightarrow> keyed" where
  "bikEntry c m = (\<lparr>manager = c, columns = [bikStr m]\<rparr>, sortBik m)"

text \<open>The rows pushed for any other manager, lines 392 to 404.\<close>

definition placeholder1 :: "string \<Rightarrow> string \<Rightarrow> row" where
  "placeholder1 msgFundNotExist c = \<lparr>manager = c, columns = [msgFundNotExist]\<rparr>"

definition placeholder2 :: "string \<Rightarrow> string \<Rightarrow> row" where
  "placeholder2 msgFundNotExist c =
     \<lparr>manager = c, columns = [msgFundNotExist, msgFundNotExist]\<rparr>"

text \<open>The rows of a manager in the range, and its values.\<close>

definition companyMetrics ::
  "(real \<Rightarrow> string) \<Rightarrow> string \<Rightarrow> string \<Rightarrow> observation list \<Rightarrow> string \<Rightarrow> metrics" where
  "companyMetrics big msgFundNotExist msgNoData rangeData c =
     (let grpRange = filter (\<lambda>r. company_short r = c) rangeData
      in metricsOf big msgFundNotExist msgNoData grpRange)"

text \<open>The body of \<open>companies.forEach\<close>, lines 381 to 473.\<close>

definition forCompany ::
  "(real \<Rightarrow> string) \<Rightarrow> string \<Rightarrow> string \<Rightarrow> observation list \<Rightarrow> (string \<rightharpoonup> jsnum)
     \<Rightarrow> jsnum option \<Rightarrow> tables \<Rightarrow> string \<Rightarrow> tables" where
  "forCompany big msgFundNotExist msgNoData rangeData cov requestedYears tb c =
     (if eligible rangeData cov requestedYears c then
        (let m = companyMetrics big msgFundNotExist msgNoData rangeData c
         in tb\<lparr>growthNumeric := growthNumeric tb @ [growthEntry big msgFundNotExist c m],
               avgNumeric := avgNumeric tb @ [avgEntry big msgFundNotExist c m],
               extremesNumeric := extremesNumeric tb @ [extremesEntry big msgFundNotExist c m],
               participantsNumeric := participantsNumeric tb @ [participantsEntry c m],
               bikNumeric := bikNumeric tb @ [bikEntry c m]\<rparr>)
      else
        tb\<lparr>growthNoData := growthNoData tb @ [placeholder1 msgFundNotExist c],
           avgNoData := avgNoData tb @ [placeholder1 msgFundNotExist c],
           extremesNoData := extremesNoData tb @ [placeholder2 msgFundNotExist c],
           participantsNoData := participantsNoData tb @ [placeholder2 msgFundNotExist c],
           bikNoData := bikNoData tb @ [placeholder1 msgFundNotExist c]\<rparr>)"

text \<open>Lines 329 to 473: the ten lists after the loop over the managers.\<close>

definition buildTables ::
  "(real \<Rightarrow> string) \<Rightarrow> string \<Rightarrow> string \<Rightarrow> observation list \<Rightarrow> string \<Rightarrow> string \<Rightarrow> tables" where
  "buildTables big msgFundNotExist msgNoData rawData ft period =
     (let fundData = fundDataOf rawData ft;
          companies = companiesOf fundData;
          cov = coverageYears fundData companies;
          baseData = (if period = ''ALL'' then rawData else fundData);
          rng = getRange rawData baseData period;
          rangeData = rangeDataOf fundData rng;
          requestedYears = requestedYearsOf period rng
      in foldl (forCompany big msgFundNotExist msgNoData rangeData cov requestedYears)
           noTables companies)"

text \<open>The two comparators of lines 475 to 479.\<close>

definition descending :: "keyed \<Rightarrow> keyed \<Rightarrow> jsnum" where
  "descending a b = jsub (snd b) (snd a)"

definition ascending :: "keyed \<Rightarrow> keyed \<Rightarrow> jsnum" where
  "ascending a b = jsub (snd a) (snd b)"

text \<open>Sort, drop the keys, append the rows without data.\<close>

definition finish :: "(keyed \<Rightarrow> keyed \<Rightarrow> jsnum) \<Rightarrow> keyed list \<Rightarrow> row list \<Rightarrow> row list" where
  "finish cmp numeric noData = map fst (array_sort cmp numeric) @ noData"

record rendered =
  growthRows :: "row list"
  avgRows :: "row list"
  extremesRows :: "row list"
  participantsRows :: "row list"
  bikRows :: "row list"

text \<open>What \<open>renderTables\<close> leaves in the five table bodies: emptied, untouched, or filled.\<close>

datatype outcome = Cleared | Untouched | Rendered rendered

definition renderTables ::
  "(real \<Rightarrow> string) \<Rightarrow> string \<Rightarrow> string \<Rightarrow> observation list \<Rightarrow> string option \<Rightarrow> string
     \<Rightarrow> outcome" where
  "renderTables big msgFundNotExist msgNoData rawData ft period =
     (case ft of
        None \<Rightarrow> Cleared
      | Some ftv \<Rightarrow>
          if ftv = [] \<or> period = [] then Cleared
          else if fundDataOf rawData ftv = [] then Untouched
          else
            let tb = buildTables big msgFundNotExist msgNoData rawData ftv period
            in Rendered
                 \<lparr>growthRows = finish descending (growthNumeric tb) (growthNoData tb),
                  avgRows = finish descending (avgNumeric tb) (avgNoData tb),
                  extremesRows = finish ascending (extremesNumeric tb) (extremesNoData tb),
                  participantsRows =
                    finish descending (participantsNumeric tb) (participantsNoData tb),
                  bikRows = finish ascending (bikNumeric tb) (bikNoData tb)\<rparr>)"

section \<open>The specification's words\<close>

text \<open>
  Cumulative growth as the specification words it: the values that are neither \<open>null\<close>
  nor NaN, and the product of a list of numbers.
\<close>

definition cleanValues :: "jsnum option list \<Rightarrow> jsnum list" where
  "cleanValues series = [n. Some n \<leftarrow> series, n \<noteq> NaN]"



text \<open>
  Coverage as the specification words it: the days between a manager's first and last
  report date over the fund type's rows, divided by 365.25. A manager is eligible when
  it has a row in the range and, where years are requested, its coverage plus
  \<open>10^-6\<close> reaches them.
\<close>

definition coverageSpan :: "observation list \<Rightarrow> string \<Rightarrow> real" where
  "coverageSpan fundData c =
     (let D = report_date ` {r \<in> set fundData. company_short r = c}
      in real_of_int (Max D - Min D) / 86400000 / 365.25)"

definition eligible_spec ::
  "observation list \<Rightarrow> observation list \<Rightarrow> jsnum option \<Rightarrow> string \<Rightarrow> bool" where
  "eligible_spec fundData rangeData requestedYears c =
     ((\<exists>r \<in> set rangeData. company_short r = c)
      \<and> (case requestedYears of None \<Rightarrow> True
         | Some y \<Rightarrow> jle y (Fin (coverageSpan fundData c + 1 / 10 ^ 6))))"

text \<open>The span of the whole dataset in years, as the specification words it for \<open>ALL\<close>.\<close>

definition globalSpan :: "observation list \<Rightarrow> real" where
  "globalSpan rawData =
     (let R = report_date ` set rawData
      in real_of_int (Max R - Min R) / 86400000 / 365.25)"

section \<open>What the extremes read\<close>

text \<open>\<open>Math.min\<close> and \<open>Math.max\<close> read a \<open>null\<close> as 0.\<close>

fun nullAsZero :: "jsnum option \<Rightarrow> real" where
  "nullAsZero None = 0"
| "nullAsZero (Some (Fin r)) = r"
| "nullAsZero (Some _) = 0"

definition finiteOrNull :: "jsnum option \<Rightarrow> bool" where
  "finiteOrNull v = (case v of None \<Rightarrow> True | Some (Fin r) \<Rightarrow> True | Some _ \<Rightarrow> False)"

section \<open>Example datasets\<close>

text \<open>Report dates are time values: 1711843200000 is 2024-03-31, midnight UTC.\<close>

definition obs ::
  "int \<Rightarrow> string \<Rightarrow> string \<Rightarrow> jsnum option \<Rightarrow> jsnum option \<Rightarrow> jsnum option \<Rightarrow> observation" where
  "obs d ft c rc np bik = \<lparr>report_date = d, fund_type = ft, company_short = c,
     relative_change = rc, number_of_participants = np, bik_pct = bik\<rparr>"

text \<open>One manager, reports of 2023-03-31, 2023-06-30 and 2024-03-31.\<close>

definition threeQuarters :: "observation list" where
  "threeQuarters =
     [obs 1680220800000 ''X'' ''A'' (Some (Fin 1)) None None,
      obs 1688083200000 ''X'' ''A'' (Some (Fin 2)) None None,
      obs 1711843200000 ''X'' ''A'' (Some (Fin 3)) None None]"

text \<open>Fund type X: manager A with the three reports above, manager B with the report of
  2024-03-31 only.\<close>

definition twoManagers :: "observation list" where
  "twoManagers =
     threeQuarters @ [obs 1711843200000 ''X'' ''B'' (Some (Fin 1)) (Some (Fin 200)) None]"

text \<open>The same, and a report of 2020-03-31 under fund type Y.\<close>

definition twoTypes :: "observation list" where
  "twoTypes = twoManagers @ [obs 1585612800000 ''Y'' ''C'' (Some (Fin 1)) None None]"

text \<open>Manager A with reports of 2024-03-31, 2024-06-30 and 2024-09-30, the second
  without a quarterly change.\<close>

definition gap :: "observation list" where
  "gap =
     [obs 1711843200000 ''X'' ''A'' (Some (Fin 5)) (Some (Fin 100)) (Some (Fin 0.5)),
      obs 1719705600000 ''X'' ''A'' None (Some (Fin 100)) (Some (Fin 0.5)),
      obs 1727654400000 ''X'' ''A'' (Some (Fin 3)) (Some (Fin 120.4)) (Some (Fin 0.5))]"

text \<open>Manager A with a first report that has no quarterly change yet, manager B with a
  change of 1, both of 2024-03-31.\<close>

definition newFund :: "observation list" where
  "newFund =
     [obs 1711843200000 ''X'' ''A'' None (Some (Fin 100)) (Some (Fin 0.5)),
      obs 1711843200000 ''X'' ''B'' (Some (Fin 1)) (Some (Fin 200)) None]"

section \<open>Arithmetic of the numbers\<close>





section \<open>Cumulative growth\<close>

lemma cleanValues_filter: "cleanValues series = map toNumber (filter isClean series)"
proof (induction series)
  case Nil
  show ?case by (simp add: cleanValues_def)
next
  case (Cons v vs)
  then show ?case
    by (cases v) (auto simp: cleanValues_def isClean_def)
qed







section \<open>Annualised return\<close>


lemma length_cleanValues: "length (cleanValues series) = length (filter isClean series)"
  by (simp add: cleanValues_filter)






section \<open>Signed percentages\<close>












section \<open>Trailing ranges\<close>

lemma foldl_max: "foldl max (d::int) ds = Max (set (d # ds))"
proof (induction ds arbitrary: d)
  case Nil
  show ?case by simp
next
  case (Cons x xs)
  have "Max (set (max d x # xs)) = Max (set (d # x # xs))"
    by (cases "xs = []") (auto simp: max.assoc)
  with Cons [of "max d x"] show ?case by simp
qed

lemma foldl_min: "foldl min (d::int) ds = Min (set (d # ds))"
proof (induction ds arbitrary: d)
  case Nil
  show ?case by simp
next
  case (Cons x xs)
  have "Min (set (min d x # xs)) = Min (set (d # x # xs))"
    by (cases "xs = []") (auto simp: min.assoc)
  with Cons [of "min d x"] show ?case by simp
qed

lemma newDateMax_Max: "dates \<noteq> [] \<Longrightarrow> newDateMax dates = Date (Max (set dates))"
  by (cases dates) (simp_all add: newDateMax_def foldl_max)

lemma newDateMin_Min: "dates \<noteq> [] \<Longrightarrow> newDateMin dates = Date (Min (set dates))"
  by (cases dates) (simp_all add: newDateMin_def foldl_min)












section \<open>The sort\<close>

lemma mset_insert_sorted: "mset (insert_sorted cmp x ys) = add_mset x (mset ys)"
  by (induction ys) simp_all

lemma array_sort_snoc: "array_sort cmp (xs @ [x]) = insert_sorted cmp x (array_sort cmp xs)"
  by (simp add: array_sort_def)

lemma mset_array_sort: "mset (array_sort cmp xs) = mset xs"
  by (induction xs rule: rev_induct) (simp_all add: array_sort_snoc mset_insert_sorted, simp add: array_sort_def)

lemma set_array_sort: "set (array_sort cmp xs) = set xs"
  using mset_array_sort [of cmp xs] by (metis set_mset_mset)

lemma length_array_sort: "length (array_sort cmp xs) = length xs"
  using mset_array_sort [of cmp xs] by (metis size_mset)

lemma array_sort_Nil_iff: "array_sort cmp xs = [] \<longleftrightarrow> xs = []"
  using length_array_sort [of cmp xs] by auto

text \<open>Sortedness, for a comparator that agrees with a total preorder on the elements.\<close>

lemma sorted_insert_sorted:
  assumes tr: "\<And>a b c. le a b \<Longrightarrow> le b c \<Longrightarrow> le a c"
    and tot: "\<And>a b. a \<in> insert x (set ys) \<Longrightarrow> b \<in> insert x (set ys) \<Longrightarrow> le a b \<or> le b a"
    and cmp: "\<And>a b. a \<in> insert x (set ys) \<Longrightarrow> b \<in> insert x (set ys) \<Longrightarrow>
                 jlt (Fin 0) (cmp a b) = (\<not> le a b)"
    and s: "sorted_wrt le ys"
  shows "sorted_wrt le (insert_sorted cmp x ys)"
  using tot cmp s
proof (induction ys)
  case Nil
  show ?case by simp
next
  case (Cons y ys)
  show ?case
  proof (cases "jlt (Fin 0) (cmp y x)")
    case True
    then have "\<not> le y x" using Cons.prems(2) [of y x] by simp
    then have xy: "le x y" using Cons.prems(1) [of y x] by auto
    have "\<forall>z\<in>set ys. le x z"
      using Cons.prems(3) xy tr by auto
    with True xy Cons.prems(3) show ?thesis by simp
  next
    case False
    then have yx: "le y x" using Cons.prems(2) [of y x] by simp
    have IH: "sorted_wrt le (insert_sorted cmp x ys)"
    proof (rule Cons.IH)
      show "le a b \<or> le b a" if "a \<in> insert x (set ys)" "b \<in> insert x (set ys)" for a b
        using that Cons.prems(1) [of a b] by auto
      show "jlt (Fin 0) (cmp a b) = (\<not> le a b)"
        if "a \<in> insert x (set ys)" "b \<in> insert x (set ys)" for a b
        using that Cons.prems(2) [of a b] by auto
      show "sorted_wrt le ys" using Cons.prems(3) by simp
    qed
    have "\<forall>z\<in>set (insert_sorted cmp x ys). le y z"
      using Cons.prems(3) yx
      by (metis insert_iff list.set(2) mset_insert_sorted set_mset_add_mset_insert set_mset_mset sorted_wrt.simps(2))
    with False IH show ?thesis by simp
  qed
qed

lemma sorted_array_sort:
  assumes tr: "\<And>a b c. le a b \<Longrightarrow> le b c \<Longrightarrow> le a c"
    and tot: "\<And>a b. a \<in> set xs \<Longrightarrow> b \<in> set xs \<Longrightarrow> le a b \<or> le b a"
    and cmp: "\<And>a b. a \<in> set xs \<Longrightarrow> b \<in> set xs \<Longrightarrow> jlt (Fin 0) (cmp a b) = (\<not> le a b)"
  shows "sorted_wrt le (array_sort cmp xs)"
  using tot cmp
proof (induction xs rule: rev_induct)
  case Nil
  show ?case by (simp add: array_sort_def)
next
  case (snoc x xs)
  have s: "sorted_wrt le (array_sort cmp xs)"
    by (rule snoc.IH) (use snoc.prems in auto)
  show ?case
    unfolding array_sort_snoc
    by (rule sorted_insert_sorted [OF tr _ _ s]) (use snoc.prems in \<open>auto simp: set_array_sort\<close>)
qed

section \<open>The loop over the managers\<close>


lemma forCompany_numeric:
  "growthNumeric (forCompany big mF mN rd cov ry tb c) = growthNumeric tb @
     (if eligible rd cov ry c then [growthEntry big mF c (companyMetrics big mF mN rd c)] else [])"
  "avgNumeric (forCompany big mF mN rd cov ry tb c) = avgNumeric tb @
     (if eligible rd cov ry c then [avgEntry big mF c (companyMetrics big mF mN rd c)] else [])"
  "extremesNumeric (forCompany big mF mN rd cov ry tb c) = extremesNumeric tb @
     (if eligible rd cov ry c then [extremesEntry big mF c (companyMetrics big mF mN rd c)] else [])"
  "participantsNumeric (forCompany big mF mN rd cov ry tb c) = participantsNumeric tb @
     (if eligible rd cov ry c then [participantsEntry c (companyMetrics big mF mN rd c)] else [])"
  "bikNumeric (forCompany big mF mN rd cov ry tb c) = bikNumeric tb @
     (if eligible rd cov ry c then [bikEntry c (companyMetrics big mF mN rd c)] else [])"
  by (simp_all add: forCompany_def Let_def)

lemma forCompany_noData:
  "growthNoData (forCompany big mF mN rd cov ry tb c) = growthNoData tb @
     (if eligible rd cov ry c then [] else [placeholder1 mF c])"
  "avgNoData (forCompany big mF mN rd cov ry tb c) = avgNoData tb @
     (if eligible rd cov ry c then [] else [placeholder1 mF c])"
  "extremesNoData (forCompany big mF mN rd cov ry tb c) = extremesNoData tb @
     (if eligible rd cov ry c then [] else [placeholder2 mF c])"
  "participantsNoData (forCompany big mF mN rd cov ry tb c) = participantsNoData tb @
     (if eligible rd cov ry c then [] else [placeholder2 mF c])"
  "bikNoData (forCompany big mF mN rd cov ry tb c) = bikNoData tb @
     (if eligible rd cov ry c then [] else [placeholder1 mF c])"
  by (simp_all add: forCompany_def Let_def)

text \<open>A field that each step extends at its end collects the pieces in order.\<close>

lemma foldl_collect:
  assumes "\<And>tb c. sel (step tb c) = sel tb @ (if P c then [f c] else [])"
  shows "sel (foldl step tb cs) = sel tb @ map f (filter P cs)"
  by (induction cs arbitrary: tb) (simp_all add: assms)

lemma forEach_numeric:
  "growthNumeric (foldl (forCompany big mF mN rd cov ry) tb cs) = growthNumeric tb @
     map (\<lambda>c. growthEntry big mF c (companyMetrics big mF mN rd c)) (filter (eligible rd cov ry) cs)"
  "avgNumeric (foldl (forCompany big mF mN rd cov ry) tb cs) = avgNumeric tb @
     map (\<lambda>c. avgEntry big mF c (companyMetrics big mF mN rd c)) (filter (eligible rd cov ry) cs)"
  "extremesNumeric (foldl (forCompany big mF mN rd cov ry) tb cs) = extremesNumeric tb @
     map (\<lambda>c. extremesEntry big mF c (companyMetrics big mF mN rd c)) (filter (eligible rd cov ry) cs)"
  "participantsNumeric (foldl (forCompany big mF mN rd cov ry) tb cs) = participantsNumeric tb @
     map (\<lambda>c. participantsEntry c (companyMetrics big mF mN rd c)) (filter (eligible rd cov ry) cs)"
  "bikNumeric (foldl (forCompany big mF mN rd cov ry) tb cs) = bikNumeric tb @
     map (\<lambda>c. bikEntry c (companyMetrics big mF mN rd c)) (filter (eligible rd cov ry) cs)"
  by (rule foldl_collect, rule forCompany_numeric)+

lemma forEach_noData:
  "growthNoData (foldl (forCompany big mF mN rd cov ry) tb cs) = growthNoData tb @
     map (placeholder1 mF) (filter (\<lambda>c. \<not> eligible rd cov ry c) cs)"
  "avgNoData (foldl (forCompany big mF mN rd cov ry) tb cs) = avgNoData tb @
     map (placeholder1 mF) (filter (\<lambda>c. \<not> eligible rd cov ry c) cs)"
  "extremesNoData (foldl (forCompany big mF mN rd cov ry) tb cs) = extremesNoData tb @
     map (placeholder2 mF) (filter (\<lambda>c. \<not> eligible rd cov ry c) cs)"
  "participantsNoData (foldl (forCompany big mF mN rd cov ry) tb cs) = participantsNoData tb @
     map (placeholder2 mF) (filter (\<lambda>c. \<not> eligible rd cov ry c) cs)"
  "bikNoData (foldl (forCompany big mF mN rd cov ry) tb cs) = bikNoData tb @
     map (placeholder1 mF) (filter (\<lambda>c. \<not> eligible rd cov ry c) cs)"
proof -
  have flip: "(if eligible rd cov ry c then [] else [x]) = (if \<not> eligible rd cov ry c then [x] else [])"
    for c and x :: row
    by simp
  show "growthNoData (foldl (forCompany big mF mN rd cov ry) tb cs) = growthNoData tb @
     map (placeholder1 mF) (filter (\<lambda>c. \<not> eligible rd cov ry c) cs)"
    by (rule foldl_collect) (simp add: forCompany_noData)
  show "avgNoData (foldl (forCompany big mF mN rd cov ry) tb cs) = avgNoData tb @
     map (placeholder1 mF) (filter (\<lambda>c. \<not> eligible rd cov ry c) cs)"
    by (rule foldl_collect) (simp add: forCompany_noData)
  show "extremesNoData (foldl (forCompany big mF mN rd cov ry) tb cs) = extremesNoData tb @
     map (placeholder2 mF) (filter (\<lambda>c. \<not> eligible rd cov ry c) cs)"
    by (rule foldl_collect) (simp add: forCompany_noData)
  show "participantsNoData (foldl (forCompany big mF mN rd cov ry) tb cs) = participantsNoData tb @
     map (placeholder2 mF) (filter (\<lambda>c. \<not> eligible rd cov ry c) cs)"
    by (rule foldl_collect) (simp add: forCompany_noData)
  show "bikNoData (foldl (forCompany big mF mN rd cov ry) tb cs) = bikNoData tb @
     map (placeholder1 mF) (filter (\<lambda>c. \<not> eligible rd cov ry c) cs)"
    by (rule foldl_collect) (simp add: forCompany_noData)
qed

text \<open>The coverage table holds the coverage of every manager of the fund type.\<close>

lemma foldl_map_upd:
  "foldl (\<lambda>m c. m(c \<mapsto> f c)) m0 cs k = (if k \<in> set cs then Some (f k) else m0 k)"
  by (induction cs arbitrary: m0) auto

lemma coverageYears_lookup:
  "coverageYears fundData companies c =
     (if c \<in> set companies then Some (coverageOf fundData c) else None)"
  by (simp add: coverageYears_def foldl_map_upd)

lemma set_companiesOf: "set (companiesOf fundData) = company_short ` set fundData"
  by (simp add: companiesOf_def)

lemma distinct_companiesOf: "distinct (companiesOf fundData)"
  by (simp add: companiesOf_def)

lemma sorted_companiesOf: "sorted (companiesOf fundData)"
  by (simp add: companiesOf_def)

section \<open>Coverage and eligibility\<close>

lemma coverageOf_span:
  assumes "c \<in> company_short ` set fundData"
  shows "coverageOf fundData c = Fin (coverageSpan fundData c)"
proof -
  define rows where "rows = filter (\<lambda>r. company_short r = c) fundData"
  have ne: "map report_date rows \<noteq> []"
    using assms by (auto simp: rows_def filter_empty_conv)
  have D: "set (map report_date rows) = report_date ` {r \<in> set fundData. company_short r = c}"
    by (auto simp: rows_def)
  have "coverageOf fundData c =
      jdiv (jdiv (dateDiff (newDateMax (map report_date rows)) (newDateMin (map report_date rows)))
              (Fin (1000 * 60 * 60 * 24))) (Fin 365.25)"
    by (simp add: coverageOf_def rows_def Let_def)
  also have "\<dots> = Fin (real_of_int (Max (set (map report_date rows)) - Min (set (map report_date rows)))
                      / 86400000 / 365.25)"
    by (simp add: newDateMax_Max [OF ne] newDateMin_Min [OF ne] dateDiff_def jsub_def)
  finally show ?thesis
    unfolding D by (simp add: coverageSpan_def Let_def)
qed

lemma orZero_Fin: "orZero (Some (Fin x)) = Fin x"
  by (simp add: orZero_def)

lemma eligible_iff_spec:
  assumes "c \<in> set (companiesOf fundData)"
  shows "eligible rangeData (coverageYears fundData (companiesOf fundData)) requestedYears c
           = eligible_spec fundData rangeData requestedYears c"
proof -
  have c: "c \<in> company_short ` set fundData"
    using assms by (simp add: set_companiesOf)
  have "orZero (coverageYears fundData (companiesOf fundData) c) = Fin (coverageSpan fundData c)"
    using assms by (simp add: coverageYears_lookup coverageOf_span [OF c] orZero_Fin)
  then show ?thesis
    by (auto simp: eligible_def eligible_spec_def hasEnoughHistory_def Let_def filter_empty_conv
        split: option.splits)
qed

lemma filter_eligible_spec:
  "filter (eligible rangeData (coverageYears fundData (companiesOf fundData)) requestedYears)
       (companiesOf fundData)
     = filter (eligible_spec fundData rangeData requestedYears) (companiesOf fundData)"
  by (rule filter_cong [OF refl]) (rule eligible_iff_spec)

lemma filter_not_eligible_spec:
  "filter (\<lambda>c. \<not> eligible rangeData (coverageYears fundData (companiesOf fundData)) requestedYears c)
       (companiesOf fundData)
     = filter (\<lambda>c. \<not> eligible_spec fundData rangeData requestedYears c) (companiesOf fundData)"
  by (rule filter_cong [OF refl]) (simp add: eligible_iff_spec)

lemma manager_entries:
  "manager (fst (growthEntry big mF c m)) = c"
  "manager (fst (avgEntry big mF c m)) = c"
  "manager (fst (extremesEntry big mF c m)) = c"
  "manager (fst (participantsEntry c m)) = c"
  "manager (fst (bikEntry c m)) = c"
  "manager (placeholder1 mF c) = c"
  "manager (placeholder2 mF c) = c"
  by (simp_all add: growthEntry_def avgEntry_def extremesEntry_def participantsEntry_def
      bikEntry_def placeholder1_def placeholder2_def)

lemma noTables_fields:
  "growthNumeric noTables = []" "avgNumeric noTables = []" "extremesNumeric noTables = []"
  "participantsNumeric noTables = []" "bikNumeric noTables = []"
  "growthNoData noTables = []" "avgNoData noTables = []" "extremesNoData noTables = []"
  "participantsNoData noTables = []" "bikNoData noTables = []"
  by (simp_all add: noTables_def)

text \<open>The managers of the ten lists, for any way of choosing the range.\<close>

lemma buildTables_managers:
  fixes raw ft period big mF mN
  defines "fundData \<equiv> fundDataOf raw ft"
  defines "rng \<equiv> getRange raw (if period = ''ALL'' then raw else fundData) period"
  defines "E \<equiv> eligible_spec fundData (rangeDataOf fundData rng) (requestedYearsOf period rng)"
  defines "tb \<equiv> buildTables big mF mN raw ft period"
  shows "map (manager \<circ> fst) (growthNumeric tb) = filter E (companiesOf fundData)"
    and "map (manager \<circ> fst) (avgNumeric tb) = filter E (companiesOf fundData)"
    and "map (manager \<circ> fst) (extremesNumeric tb) = filter E (companiesOf fundData)"
    and "map (manager \<circ> fst) (participantsNumeric tb) = filter E (companiesOf fundData)"
    and "map (manager \<circ> fst) (bikNumeric tb) = filter E (companiesOf fundData)"
    and "map manager (growthNoData tb) = filter (\<lambda>c. \<not> E c) (companiesOf fundData)"
    and "map manager (avgNoData tb) = filter (\<lambda>c. \<not> E c) (companiesOf fundData)"
    and "map manager (extremesNoData tb) = filter (\<lambda>c. \<not> E c) (companiesOf fundData)"
    and "map manager (participantsNoData tb) = filter (\<lambda>c. \<not> E c) (companiesOf fundData)"
    and "map manager (bikNoData tb) = filter (\<lambda>c. \<not> E c) (companiesOf fundData)"
  unfolding tb_def buildTables_def Let_def forEach_numeric forEach_noData noTables_fields
    fundData_def [symmetric] rng_def [symmetric] filter_eligible_spec filter_not_eligible_spec
    E_def [symmetric]
  by (simp_all add: comp_def manager_entries)


lemma image_filter_set: "f ` {r \<in> set xs. P r} = set (map f (filter P xs))"
  by auto


lemma twoManagers_companies: "companiesOf twoManagers = [''A'', ''B'']"
  by code_simp


section \<open>The whole period\<close>

lemma getRange_ALL:
  assumes "data \<noteq> []" and "raw \<noteq> []"
  shows "getRange raw data ''ALL'' =
           (Some (Date (Min (report_date ` set raw))), Some (Date (Max (report_date ` set raw))))"
  using assms by (simp add: getRange_def newDateMin_Min newDateMax_Max)

lemma requestedYears_ALL:
  "requestedYearsOf ''ALL'' (Some (Date a), Some (Date b))
     = Some (Fin (real_of_int (b - a) / 86400000 / 365.25))"
  by (simp add: requestedYearsOf_def dateDiff_def jsub_def)

lemma rangeData_ALL:
  assumes "set fundData \<subseteq> set raw"
  shows "rangeDataOf fundData
           (Some (Date (Min (report_date ` set raw))), Some (Date (Max (report_date ` set raw))))
         = fundData"
proof -
  have "Min (report_date ` set raw) \<le> report_date r \<and> report_date r \<le> Max (report_date ` set raw)"
    if "r \<in> set fundData" for r
    using that assms by (auto intro: Min_le Max_ge)
  then show ?thesis
    by (simp add: rangeDataOf_def)
qed

lemma fundData_subset: "set (fundDataOf raw ft) \<subseteq> set raw"
  by (auto simp: fundDataOf_def)

lemma eligible_spec_ALL:
  assumes "c \<in> set (companiesOf fundData)"
  shows "eligible_spec fundData fundData (Some (Fin s)) c = (s \<le> coverageSpan fundData c + 1 / 10 ^ 6)"
  using assms by (auto simp: eligible_spec_def set_companiesOf)

text \<open>
  Claim C4. For the period \<open>ALL\<close> the range runs from the earliest to the latest report
  date of the whole dataset, whatever the fund type; the years asked of a manager are
  the span of that range; every row of the selected fund type lies in the range; and a
  manager of the fund type is among the numeric rows exactly when its own coverage,
  over its rows under the fund type, plus \<open>10^-6\<close> reaches the span of the whole
  dataset. The rows shown are those of the fund type's managers only.
\<close>

theorem all_period:
  assumes "fundDataOf raw ft \<noteq> []"
  shows
  "let fundData = fundDataOf raw ft;
       R = report_date ` set raw;
       rng = getRange raw raw ''ALL'';
       tb = buildTables big mF mN raw ft ''ALL'';
       covers = (\<lambda>c. globalSpan raw \<le> coverageSpan fundData c + 1 / 10 ^ 6)
   in rng = (Some (Date (Min R)), Some (Date (Max R)))
      \<and> requestedYearsOf ''ALL'' rng = Some (Fin (globalSpan raw))
      \<and> rangeDataOf fundData rng = fundData
      \<and> map (manager \<circ> fst) (growthNumeric tb) = filter covers (companiesOf fundData)
      \<and> map (manager \<circ> fst) (avgNumeric tb) = filter covers (companiesOf fundData)
      \<and> map (manager \<circ> fst) (extremesNumeric tb) = filter covers (companiesOf fundData)
      \<and> map (manager \<circ> fst) (participantsNumeric tb) = filter covers (companiesOf fundData)
      \<and> map (manager \<circ> fst) (bikNumeric tb) = filter covers (companiesOf fundData)
      \<and> map manager (growthNoData tb) = filter (\<lambda>c. \<not> covers c) (companiesOf fundData)
      \<and> map manager (avgNoData tb) = filter (\<lambda>c. \<not> covers c) (companiesOf fundData)
      \<and> map manager (extremesNoData tb) = filter (\<lambda>c. \<not> covers c) (companiesOf fundData)
      \<and> map manager (participantsNoData tb) = filter (\<lambda>c. \<not> covers c) (companiesOf fundData)
      \<and> map manager (bikNoData tb) = filter (\<lambda>c. \<not> covers c) (companiesOf fundData)
      \<and> set (companiesOf fundData) = company_short ` {r \<in> set raw. fund_type r = ft}"
proof -
  from assms have raw: "raw \<noteq> []"
    by (auto simp: fundDataOf_def)
  have rng: "getRange raw raw ''ALL'' =
      (Some (Date (Min (report_date ` set raw))), Some (Date (Max (report_date ` set raw))))"
    by (rule getRange_ALL [OF raw raw])
  have ry: "requestedYearsOf ''ALL'' (getRange raw raw ''ALL'') = Some (Fin (globalSpan raw))"
    unfolding rng requestedYears_ALL by (simp add: globalSpan_def Let_def)
  have rd: "rangeDataOf (fundDataOf raw ft) (getRange raw raw ''ALL'') = fundDataOf raw ft"
    unfolding rng by (rule rangeData_ALL [OF fundData_subset])
  have E: "filter (eligible_spec (fundDataOf raw ft) (fundDataOf raw ft) (Some (Fin (globalSpan raw))))
              (companiesOf (fundDataOf raw ft))
           = filter (\<lambda>c. globalSpan raw \<le> coverageSpan (fundDataOf raw ft) c + 1 / 10 ^ 6)
              (companiesOf (fundDataOf raw ft))"
    by (rule filter_cong [OF refl]) (rule eligible_spec_ALL)
  have N: "filter (\<lambda>c. \<not> eligible_spec (fundDataOf raw ft) (fundDataOf raw ft) (Some (Fin (globalSpan raw))) c)
              (companiesOf (fundDataOf raw ft))
           = filter (\<lambda>c. \<not> globalSpan raw \<le> coverageSpan (fundDataOf raw ft) c + 1 / 10 ^ 6)
              (companiesOf (fundDataOf raw ft))"
    by (rule filter_cong [OF refl]) (simp add: eligible_spec_ALL)
  have C: "set (companiesOf (fundDataOf raw ft)) = company_short ` {r \<in> set raw. fund_type r = ft}"
    by (auto simp: set_companiesOf fundDataOf_def)
  note m = buildTables_managers [of big mF mN raw ft "''ALL''", simplified, unfolded ry rd E N]
  show ?thesis
    unfolding Let_def using rng ry rd C m by (intro conjI) assumption+
qed

lemma twoTypes_fundData: "fundDataOf twoTypes ''X'' = twoManagers"
  by (simp add: fundDataOf_def twoTypes_def twoManagers_def threeQuarters_def obs_def)

theorem all_period_witness:
  "fundDataOf twoTypes ''X'' \<noteq> []
   \<and> getRange twoTypes twoTypes ''ALL'' = (Some (Date 1585612800000), Some (Date 1711843200000))
   \<and> globalSpan twoTypes = 1461 / 365.25
   \<and> coverageSpan (fundDataOf twoTypes ''X'') ''A'' = 366 / 365.25
   \<and> map manager (growthNoData (buildTables (\<lambda>x. []) ''Fund did not exist'' ''No data reported''
        twoTypes ''X'' ''ALL'')) = [''A'', ''B'']
   \<and> map (manager \<circ> fst) (growthNumeric (buildTables (\<lambda>x. []) ''Fund did not exist''
        ''No data reported'' twoTypes ''X'' ''ALL'')) = []"
proof -
  have ne: "fundDataOf twoTypes ''X'' \<noteq> []"
    by (simp add: twoTypes_fundData twoManagers_def)
  have R: "report_date ` set twoTypes
      = {1680220800000, 1688083200000, 1711843200000, 1585612800000}"
    by (simp add: twoTypes_def twoManagers_def threeQuarters_def obs_def)
  have g: "globalSpan twoTypes = 1461 / 365.25"
    unfolding globalSpan_def Let_def R by simp
  have DA: "report_date ` {r \<in> set twoManagers. company_short r = ''A''}
      = {1680220800000, 1688083200000, 1711843200000}"
    unfolding image_filter_set by (simp add: twoManagers_def threeQuarters_def obs_def)
  have DB: "report_date ` {r \<in> set twoManagers. company_short r = ''B''} = {1711843200000}"
    unfolding image_filter_set by (simp add: twoManagers_def threeQuarters_def obs_def)
  have cA: "coverageSpan twoManagers ''A'' = 366 / 365.25"
    unfolding coverageSpan_def Let_def DA by simp
  have cB: "coverageSpan twoManagers ''B'' = 0"
    unfolding coverageSpan_def Let_def DB by simp
  note a = all_period [OF ne, of "\<lambda>x. []" "''Fund did not exist''" "''No data reported''",
      unfolded Let_def twoTypes_fundData twoManagers_companies g]
  have r: "getRange twoTypes twoTypes ''ALL'' = (Some (Date 1585612800000), Some (Date 1711843200000))"
    using a unfolding R by simp
  have n: "map manager (growthNoData (buildTables (\<lambda>x. []) ''Fund did not exist'' ''No data reported''
        twoTypes ''X'' ''ALL'')) = [''A'', ''B'']"
    using a by (simp add: cA cB)
  have e: "map (manager \<circ> fst) (growthNumeric (buildTables (\<lambda>x. []) ''Fund did not exist''
        ''No data reported'' twoTypes ''X'' ''ALL'')) = []"
    using a by (simp add: cA cB)
  from ne r g cA n e show ?thesis
    by (simp add: twoTypes_fundData)
qed

section \<open>Quarterly extremes\<close>

lemma min2_Fin: "min2 (Fin a) (Fin b) = Fin (min a b)"
  by (simp add: min2_def min_def)

lemma max2_Fin: "max2 (Fin a) (Fin b) = Fin (max a b)"
  by (simp add: max2_def max_def)

lemma foldl_min2_Fin: "foldl min2 (Fin a) (map Fin rs) = Fin (Min (set (a # rs)))"
proof (induction rs arbitrary: a)
  case Nil
  show ?case by simp
next
  case (Cons r rs)
  have "Min (set (min a r # rs)) = Min (set (a # r # rs))"
    by (cases "rs = []") (auto simp: min.assoc)
  with Cons [of "min a r"] show ?case by (simp add: min2_Fin)
qed

lemma foldl_max2_Fin: "foldl max2 (Fin a) (map Fin rs) = Fin (Max (set (a # rs)))"
proof (induction rs arbitrary: a)
  case Nil
  show ?case by simp
next
  case (Cons r rs)
  have "Max (set (max a r # rs)) = Max (set (a # r # rs))"
    by (cases "rs = []") (auto simp: max.assoc)
  with Cons [of "max a r"] show ?case by (simp add: max2_Fin)
qed

lemma toNumber_nullAsZero: "finiteOrNull v \<Longrightarrow> toNumber v = Fin (nullAsZero v)"
  by (cases v rule: nullAsZero.cases) (simp_all add: finiteOrNull_def)

lemma map_toNumber_nullAsZero:
  "list_all finiteOrNull xs \<Longrightarrow> map toNumber xs = map Fin (map nullAsZero xs)"
  by (induction xs) (simp_all add: toNumber_nullAsZero)

lemma Math_min_nullAsZero:
  assumes "list_all finiteOrNull xs" and "xs \<noteq> []"
  shows "Math_min xs = Fin (Min (nullAsZero ` set xs))"
proof -
  from assms(2) obtain v vs where xs: "xs = v # vs" by (cases xs) auto
  have s: "min2 PInf (Fin a) = Fin a" for a by (simp add: min2_def)
  have "Math_min xs = foldl min2 PInf (map Fin (map nullAsZero xs))"
    by (simp only: Math_min_def map_toNumber_nullAsZero [OF assms(1)])
  also have "\<dots> = foldl min2 (Fin (nullAsZero v)) (map Fin (map nullAsZero vs))"
    by (simp add: xs s)
  also have "\<dots> = Fin (Min (set (nullAsZero v # map nullAsZero vs)))"
    by (rule foldl_min2_Fin)
  finally show ?thesis by (simp add: xs)
qed

lemma Math_max_nullAsZero:
  assumes "list_all finiteOrNull xs" and "xs \<noteq> []"
  shows "Math_max xs = Fin (Max (nullAsZero ` set xs))"
proof -
  from assms(2) obtain v vs where xs: "xs = v # vs" by (cases xs) auto
  have s: "max2 NInf (Fin a) = Fin a" for a by (simp add: max2_def)
  have "Math_max xs = foldl max2 NInf (map Fin (map nullAsZero xs))"
    by (simp only: Math_max_def map_toNumber_nullAsZero [OF assms(1)])
  also have "\<dots> = foldl max2 (Fin (nullAsZero v)) (map Fin (map nullAsZero vs))"
    by (simp add: xs s)
  also have "\<dots> = Fin (Max (set (nullAsZero v # map nullAsZero vs)))"
    by (rule foldl_max2_Fin)
  finally show ?thesis by (simp add: xs)
qed

lemma extremes_of_rows:
  assumes "rows \<noteq> []" and "list_all (\<lambda>r. finiteOrNull (relative_change r)) rows"
  shows "worstVal (metricsOf big mF mN rows) = Fin (Min (nullAsZero ` relative_change ` set rows))"
    and "bestVal (metricsOf big mF mN rows) = Fin (Max (nullAsZero ` relative_change ` set rows))"
proof -
  let ?xs = "map relative_change (array_sort byDate rows)"
  have ne: "?xs \<noteq> []"
    using assms(1) by (simp add: array_sort_Nil_iff)
  have fin: "list_all finiteOrNull ?xs"
    using assms(2) by (simp add: list_all_iff set_array_sort)
  have s: "set ?xs = relative_change ` set rows"
    by (simp add: set_array_sort)
  show "worstVal (metricsOf big mF mN rows) = Fin (Min (nullAsZero ` relative_change ` set rows))"
    using Math_min_nullAsZero [OF fin ne] unfolding s by (simp add: metricsOf_def Let_def)
  show "bestVal (metricsOf big mF mN rows) = Fin (Max (nullAsZero ` relative_change ` set rows))"
    using Math_max_nullAsZero [OF fin ne] unfolding s by (simp add: metricsOf_def Let_def)
qed

text \<open>
  Claim C6 does not hold of the code. The worst and the best quarter are \<open>Math.min\<close> and
  \<open>Math.max\<close> of all the quarterly changes of the manager's rows in the range, a
  \<open>null\<close> among them counting as 0. For manager A with the changes 5, \<open>null\<close> and 3 the
  worst quarter is shown as \<open>0.00\<close>; the least change that is not \<open>null\<close> is 3, which
  prints as \<open>+3.00\<close>.
\<close>

theorem extremes_null_as_zero:
  "extremesNumeric (buildTables (\<lambda>x. []) ''Fund did not exist'' ''No data reported'' gap ''X'' ''YTD'')
     = [(\<lparr>manager = ''A'', columns = [''0.00'', ''+5.00'']\<rparr>, Fin 0)]
   \<and> (case renderTables (\<lambda>x. []) ''Fund did not exist'' ''No data reported'' gap (Some ''X'') ''YTD''
       of Rendered r \<Rightarrow> extremesRows r | _ \<Rightarrow> [])
     = [\<lparr>manager = ''A'', columns = [''0.00'', ''+5.00'']\<rparr>]
   \<and> cleanValues (map relative_change gap) = [Fin 5, Fin 3]
   \<and> fmtSigned (\<lambda>x. []) (Some (Fin (Min {5, 3}))) 2 ''Fund did not exist'' = ''+3.00''"
proof -
  have a: "extremesNumeric (buildTables (\<lambda>x. []) ''Fund did not exist'' ''No data reported'' gap ''X'' ''YTD'')
     = [(\<lparr>manager = ''A'', columns = [''0.00'', ''+5.00'']\<rparr>, Fin 0)]"
    by code_simp
  have b: "(case renderTables (\<lambda>x. []) ''Fund did not exist'' ''No data reported'' gap (Some ''X'') ''YTD''
       of Rendered r \<Rightarrow> extremesRows r | _ \<Rightarrow> [])
     = [\<lparr>manager = ''A'', columns = [''0.00'', ''+5.00'']\<rparr>]"
    by code_simp
  have c: "cleanValues (map relative_change gap) = [Fin 5, Fin 3]"
    by (simp add: cleanValues_def gap_def obs_def)
  have d: "fmtSigned (\<lambda>x. []) (Some (Fin (Min {5, 3}))) 2 ''Fund did not exist'' = ''+3.00''"
    by (simp add: fmtSigned_def toFixed_def digits.simps digit_char_def Let_def)
  from a b c d show ?thesis by blast
qed

section \<open>Participants\<close>




lemma filter_own_entry:
  assumes "distinct cs" and "c \<in> set cs" and "P c" and "\<And>d. manager (fst (f d)) = d"
  shows "[k \<leftarrow> map f (filter P cs). manager (fst k) = c] = [f c]"
  using assms(1,2)
proof (induction cs)
  case Nil
  then show ?case by simp
next
  case (Cons d ds)
  have none: "[k \<leftarrow> map f (filter P ds). manager (fst k) = c] = []" if "c \<notin> set ds"
    using that by (auto simp: filter_empty_conv assms(4))
  show ?case
  proof (cases "d = c")
    case True
    with Cons.prems have "c \<notin> set ds" by simp
    with True assms(3) show ?thesis by (simp add: none assms(4))
  next
    case False
    with Cons show ?thesis by (simp add: assms(4))
  qed
qed







section \<open>The order of the rows\<close>

lemma jle_trans: "jle a b \<Longrightarrow> jle b c \<Longrightarrow> jle a c"
  by (cases a; cases b; cases c) auto

lemma jle_total: "a \<noteq> NaN \<Longrightarrow> b \<noteq> NaN \<Longrightarrow> jle a b \<or> jle b a"
  by (cases a; cases b) auto

lemma jlt_difference: "a \<noteq> NaN \<Longrightarrow> b \<noteq> NaN \<Longrightarrow> jlt (Fin 0) (jsub a b) = (\<not> jle a b)"
  by (cases a; cases b) (auto simp: jsub_def)

text \<open>Without a NaN among the keys the two sorts put the keys in order.\<close>

lemma sorted_descending:
  assumes "\<forall>k \<in> set xs. snd k \<noteq> NaN"
  shows "sorted_wrt (\<lambda>a b. jle (snd b) (snd a)) (array_sort descending xs)"
proof (rule sorted_array_sort)
  show "jle (snd c) (snd a)" if "jle (snd b) (snd a)" "jle (snd c) (snd b)" for a b c :: keyed
    using that jle_trans by blast
  show "jle (snd b) (snd a) \<or> jle (snd a) (snd b)" if "a \<in> set xs" "b \<in> set xs" for a b
    using that assms jle_total by blast
  show "jlt (Fin 0) (descending a b) = (\<not> jle (snd b) (snd a))"
    if "a \<in> set xs" "b \<in> set xs" for a b
    using that assms by (simp add: descending_def jlt_difference)
qed

lemma sorted_ascending:
  assumes "\<forall>k \<in> set xs. snd k \<noteq> NaN"
  shows "sorted_wrt (\<lambda>a b. jle (snd a) (snd b)) (array_sort ascending xs)"
proof (rule sorted_array_sort)
  show "jle (snd a) (snd c)" if "jle (snd a) (snd b)" "jle (snd b) (snd c)" for a b c :: keyed
    using that jle_trans by blast
  show "jle (snd a) (snd b) \<or> jle (snd b) (snd a)" if "a \<in> set xs" "b \<in> set xs" for a b
    using that assms jle_total by blast
  show "jlt (Fin 0) (ascending a b) = (\<not> jle (snd a) (snd b))"
    if "a \<in> set xs" "b \<in> set xs" for a b
    using that assms by (simp add: ascending_def jlt_difference)
qed

text \<open>The keys of the participants and of the expense ratio are never NaN.\<close>

lemma Math_round_NaN: "Math_round x = NaN \<longleftrightarrow> x = NaN"
  by (cases x) simp_all

lemma sortPart_not_NaN: "sortPart (metricsOf big mF mN rows) \<noteq> NaN"
proof -
  have "Math_round (toNumber v) \<noteq> NaN" if "v \<noteq> None" "v \<noteq> Some NaN" for v
    using that by (cases v) (simp_all add: Math_round_NaN)
  then show ?thesis
    by (simp add: metricsOf_def Let_def)
qed

lemma sortBik_not_NaN: "sortBik (metricsOf big mF mN rows) \<noteq> NaN"
proof -
  have "toNumber v \<noteq> NaN" if "v \<noteq> None" "v \<noteq> Some NaN" for v
    using that by (cases v) simp_all
  then show ?thesis
    by (simp add: metricsOf_def Let_def)
qed

text \<open>
  Claim C9 does not hold of the code. Every table is its sorted numeric rows followed by
  its placeholder rows, and the sort puts the keys in order when none of them is NaN.
  But the key of cumulative growth is NaN for an eligible manager without a quarterly
  change: with manager A reporting no change and manager B a change of 1, the growth
  table lists A's row, key NaN, before B's row, key 1, which is not descending.
\<close>

theorem growth_order_with_NaN:
  "array_sort descending
     (growthNumeric (buildTables (\<lambda>x. []) ''Fund did not exist'' ''No data reported'' newFund ''X'' ''YTD''))
     = [(\<lparr>manager = ''A'', columns = [''Fund did not exist'']\<rparr>, NaN),
        (\<lparr>manager = ''B'', columns = [''+1.00'']\<rparr>, Fin 1)]
   \<and> growthNoData (buildTables (\<lambda>x. []) ''Fund did not exist'' ''No data reported'' newFund ''X'' ''YTD'') = []
   \<and> \<not> sorted_wrt (\<lambda>a b. jle (snd b) (snd a))
         (array_sort descending
            (growthNumeric (buildTables (\<lambda>x. []) ''Fund did not exist'' ''No data reported'' newFund ''X'' ''YTD'')))
   \<and> (case renderTables (\<lambda>x. []) ''Fund did not exist'' ''No data reported'' newFund (Some ''X'') ''YTD''
       of Rendered r \<Rightarrow> growthRows r | _ \<Rightarrow> [])
     = [\<lparr>manager = ''A'', columns = [''Fund did not exist'']\<rparr>,
        \<lparr>manager = ''B'', columns = [''+1.00'']\<rparr>]"
proof -
  have a: "array_sort descending
     (growthNumeric (buildTables (\<lambda>x. []) ''Fund did not exist'' ''No data reported'' newFund ''X'' ''YTD''))
     = [(\<lparr>manager = ''A'', columns = [''Fund did not exist'']\<rparr>, NaN),
        (\<lparr>manager = ''B'', columns = [''+1.00'']\<rparr>, Fin 1)]"
    by code_simp
  have n: "growthNoData (buildTables (\<lambda>x. []) ''Fund did not exist'' ''No data reported'' newFund ''X'' ''YTD'') = []"
    by code_simp
  have s: "\<not> sorted_wrt (\<lambda>a b. jle (snd b) (snd a))
         (array_sort descending
            (growthNumeric (buildTables (\<lambda>x. []) ''Fund did not exist'' ''No data reported'' newFund ''X'' ''YTD'')))"
    unfolding a by simp
  have r: "(case renderTables (\<lambda>x. []) ''Fund did not exist'' ''No data reported'' newFund (Some ''X'') ''YTD''
       of Rendered r \<Rightarrow> growthRows r | _ \<Rightarrow> [])
     = [\<lparr>manager = ''A'', columns = [''Fund did not exist'']\<rparr>,
        \<lparr>manager = ''B'', columns = [''+1.00'']\<rparr>]"
    by code_simp
  from a n s r show ?thesis by blast
qed

section \<open>A placeholder among the numeric rows\<close>

lemma growth_all_null:
  assumes "list_all (\<lambda>r. relative_change r = None) rows"
  shows "growthVal (metricsOf big mF mN rows) = NaN"
    and "avgVal (metricsOf big mF mN rows) = NaN"
proof -
  have "list_all (\<lambda>v. v = None) (map relative_change (array_sort byDate rows))"
    using assms by (simp add: list_all_iff set_array_sort)
  then have c: "filter isClean (map relative_change (array_sort byDate rows)) = []"
    by (auto simp: filter_empty_conv list_all_iff isClean_def)
  show "growthVal (metricsOf big mF mN rows) = NaN"
    by (simp add: metricsOf_def Let_def geometricCumulativeGrowth_def c)
  show "avgVal (metricsOf big mF mN rows) = NaN"
    by (simp add: metricsOf_def Let_def annualisedYearlyReturn_def c)
qed

text \<open>
  Claim C10. An eligible manager whose rows in the range all have the quarterly change
  \<open>null\<close> has its growth row and its annualised row among the numeric rows, with the
  key NaN and the placeholder as text. There is such a manager: with manager A
  reporting no change and manager B a change of 1, the growth table shows the
  placeholder for A above the figure of B.
\<close>

theorem placeholder_among_numeric:
  "(let fundData = fundDataOf raw ft;
        rng = getRange raw (if period = ''ALL'' then raw else fundData) period;
        rangeData = rangeDataOf fundData rng;
        requestedYears = requestedYearsOf period rng;
        tb = buildTables big mF mN raw ft period;
        rows = filter (\<lambda>r. company_short r = c) rangeData
    in c \<in> set (companiesOf fundData) \<and> eligible_spec fundData rangeData requestedYears c
         \<and> list_all (\<lambda>r. relative_change r = None) rows \<longrightarrow>
       [k \<leftarrow> growthNumeric tb. manager (fst k) = c] = [(\<lparr>manager = c, columns = [mF]\<rparr>, NaN)]
       \<and> [k \<leftarrow> avgNumeric tb. manager (fst k) = c] = [(\<lparr>manager = c, columns = [mF]\<rparr>, NaN)]
       \<and> \<lparr>manager = c, columns = [mF]\<rparr>
            \<in> set (map fst (array_sort descending (growthNumeric tb)))
       \<and> \<lparr>manager = c, columns = [mF]\<rparr>
            \<in> set (map fst (array_sort descending (avgNumeric tb))))
   \<and> (case renderTables (\<lambda>x. []) ''Fund did not exist'' ''No data reported'' newFund (Some ''X'') ''YTD''
       of Rendered r \<Rightarrow> growthRows r | _ \<Rightarrow> [])
     = [\<lparr>manager = ''A'', columns = [''Fund did not exist'']\<rparr>,
        \<lparr>manager = ''B'', columns = [''+1.00'']\<rparr>]"
proof -
  define fundData where "fundData = fundDataOf raw ft"
  define rng where "rng = getRange raw (if period = ''ALL'' then raw else fundData) period"
  define rangeData where "rangeData = rangeDataOf fundData rng"
  define requestedYears where "requestedYears = requestedYearsOf period rng"
  define tb where "tb = buildTables big mF mN raw ft period"
  define rows where "rows = filter (\<lambda>r. company_short r = c) rangeData"
  define cov where "cov = coverageYears fundData (companiesOf fundData)"
  have gn: "growthNumeric tb =
      map (\<lambda>c. growthEntry big mF c (companyMetrics big mF mN rangeData c))
        (filter (eligible rangeData cov requestedYears) (companiesOf fundData))"
    and an: "avgNumeric tb =
      map (\<lambda>c. avgEntry big mF c (companyMetrics big mF mN rangeData c))
        (filter (eligible rangeData cov requestedYears) (companiesOf fundData))"
    unfolding tb_def buildTables_def Let_def forEach_numeric noTables_fields
      fundData_def [symmetric] rng_def [symmetric] rangeData_def [symmetric]
      requestedYears_def [symmetric] cov_def [symmetric]
    by simp_all
  have main: "[k \<leftarrow> growthNumeric tb. manager (fst k) = c] = [(\<lparr>manager = c, columns = [mF]\<rparr>, NaN)]
       \<and> [k \<leftarrow> avgNumeric tb. manager (fst k) = c] = [(\<lparr>manager = c, columns = [mF]\<rparr>, NaN)]
       \<and> \<lparr>manager = c, columns = [mF]\<rparr> \<in> set (map fst (array_sort descending (growthNumeric tb)))
       \<and> \<lparr>manager = c, columns = [mF]\<rparr> \<in> set (map fst (array_sort descending (avgNumeric tb)))"
    if c: "c \<in> set (companiesOf fundData)"
      and e: "eligible_spec fundData rangeData requestedYears c"
      and n: "list_all (\<lambda>r. relative_change r = None) rows"
  proof -
    from c e have el: "eligible rangeData cov requestedYears c"
      unfolding cov_def by (simp add: eligible_iff_spec)
    have m: "companyMetrics big mF mN rangeData c = metricsOf big mF mN rows"
      by (simp add: companyMetrics_def rows_def)
    have ge: "growthEntry big mF c (companyMetrics big mF mN rangeData c)
                = (\<lparr>manager = c, columns = [mF]\<rparr>, NaN)"
      unfolding m by (simp add: growthEntry_def growth_all_null [OF n] fmtSigned_def)
    have ae: "avgEntry big mF c (companyMetrics big mF mN rangeData c)
                = (\<lparr>manager = c, columns = [mF]\<rparr>, NaN)"
      unfolding m by (simp add: avgEntry_def growth_all_null [OF n] fmtSigned_def)
    have g: "[k \<leftarrow> growthNumeric tb. manager (fst k) = c] = [(\<lparr>manager = c, columns = [mF]\<rparr>, NaN)]"
      unfolding gn
      using filter_own_entry [of "companiesOf fundData" c "eligible rangeData cov requestedYears"
          "\<lambda>c. growthEntry big mF c (companyMetrics big mF mN rangeData c)",
          OF distinct_companiesOf c el]
      by (simp add: manager_entries ge)
    have a: "[k \<leftarrow> avgNumeric tb. manager (fst k) = c] = [(\<lparr>manager = c, columns = [mF]\<rparr>, NaN)]"
      unfolding an
      using filter_own_entry [of "companiesOf fundData" c "eligible rangeData cov requestedYears"
          "\<lambda>c. avgEntry big mF c (companyMetrics big mF mN rangeData c)",
          OF distinct_companiesOf c el]
      by (simp add: manager_entries ae)
    have "(\<lparr>manager = c, columns = [mF]\<rparr>, NaN) \<in> set [k \<leftarrow> growthNumeric tb. manager (fst k) = c]"
      unfolding g by simp
    then have gi: "(\<lparr>manager = c, columns = [mF]\<rparr>, NaN) \<in> set (array_sort descending (growthNumeric tb))"
      by (simp add: set_array_sort)
    have "(\<lparr>manager = c, columns = [mF]\<rparr>, NaN) \<in> set [k \<leftarrow> avgNumeric tb. manager (fst k) = c]"
      unfolding a by simp
    then have ai: "(\<lparr>manager = c, columns = [mF]\<rparr>, NaN) \<in> set (array_sort descending (avgNumeric tb))"
      by (simp add: set_array_sort)
    from g a gi ai show ?thesis by force
  qed
  have ex: "(case renderTables (\<lambda>x. []) ''Fund did not exist'' ''No data reported'' newFund (Some ''X'') ''YTD''
       of Rendered r \<Rightarrow> growthRows r | _ \<Rightarrow> [])
     = [\<lparr>manager = ''A'', columns = [''Fund did not exist'']\<rparr>,
        \<lparr>manager = ''B'', columns = [''+1.00'']\<rparr>]"
    by code_simp
  show ?thesis
    unfolding Let_def fundData_def [symmetric] rng_def [symmetric] rangeData_def [symmetric]
      requestedYears_def [symmetric] tb_def [symmetric] rows_def [symmetric]
    using main ex by blast
qed

lemma newFund_range:
  "rangeDataOf (fundDataOf newFund ''X'')
     (getRange newFund (if ''YTD'' = ''ALL'' then newFund else fundDataOf newFund ''X'') ''YTD'')
   = newFund"
  by code_simp

theorem placeholder_among_numeric_witness:
  "''A'' \<in> set (companiesOf (fundDataOf newFund ''X''))
   \<and> eligible_spec (fundDataOf newFund ''X'') newFund (requestedYearsOf ''YTD''
        (getRange newFund (if ''YTD'' = ''ALL'' then newFund else fundDataOf newFund ''X'') ''YTD'')) ''A''
   \<and> list_all (\<lambda>r. relative_change r = None) (filter (\<lambda>r. company_short r = ''A'') newFund)
   \<and> [k \<leftarrow> growthNumeric
          (buildTables (\<lambda>x. []) ''Fund did not exist'' ''No data reported'' newFund ''X'' ''YTD'').
        manager (fst k) = ''A'']
     = [(\<lparr>manager = ''A'', columns = [''Fund did not exist'']\<rparr>, NaN)]"
proof -
  have ytd: "requestedYearsOf ''YTD'' r = None" for r
    by (simp add: requestedYearsOf_def allDigits_def isDigit_def split: prod.splits option.splits)
  have c: "''A'' \<in> set (companiesOf (fundDataOf newFund ''X''))"
    by code_simp
  have e: "eligible_spec (fundDataOf newFund ''X'') newFund (requestedYearsOf ''YTD''
        (getRange newFund (if ''YTD'' = ''ALL'' then newFund else fundDataOf newFund ''X'') ''YTD'')) ''A''"
    unfolding ytd by (simp add: eligible_spec_def newFund_def obs_def)
  have n: "list_all (\<lambda>r. relative_change r = None) (filter (\<lambda>r. company_short r = ''A'') newFund)"
    by (simp add: newFund_def obs_def)
  note p = placeholder_among_numeric [where raw = newFund and ft = "''X''" and period = "''YTD''"
      and c = "''A''" and big = "\<lambda>x. []" and mF = "''Fund did not exist''"
      and mN = "''No data reported''", unfolded Let_def newFund_range, THEN conjunct1, rule_format,
      OF conjI [OF c conjI [OF e n]]]
  from p c e n show ?thesis by blast
qed

end
